theory Spec2Isabelle
  imports Complex_Main
begin

section \<open>The command-line entry point of shell-gpt (\<open>sgpt/app.py\<close>)\<close>

text \<open>
  The function \<open>main\<close> of \<open>sgpt/app.py\<close> is the body that Typer runs once the
  command line has been parsed. It reads standard input, checks the combination of the
  options, optionally opens the editor, constructs the completion client, calls the
  output handlers and finally offers to execute the completion as a shell command.

  Everything \<open>main\<close> calls lives outside \<open>app.py\<close>: the handlers, the client, the
  configuration, the editor, the confirmation prompt and the shell. The model therefore
  takes them as an environment, and records every call \<open>main\<close> makes to them as an
  event of a trace. A collaborator that does not return to \<open>main\<close> (it raises, exits
  the process or loops for ever) answers \<open>None\<close>.

  The two floating-point options are only forwarded by \<open>main\<close>, never computed on, so
  their type is a parameter \<open>'f\<close> of the model of \<open>main\<close>. Their \<open>min\<close> and \<open>max\<close>
  (lines 35-45) are declarations that Typer acts on while it parses the command line,
  before \<open>main\<close> is entered; that check is modelled apart, in \<open>entry_point\<close>, over
  Python's floats. The callbacks of \<open>show_chat\<close> and \<open>list_chat\<close> can only end the
  process before \<open>main\<close> is entered; they are outside \<open>app.py\<close> and are left out.
\<close>

subsection \<open>Data\<close>

text \<open>The two Click exceptions that \<open>main\<close> raises itself.\<close>

datatype error =
    MissingParameter string string  \<comment> \<open>\<open>param_hint\<close>, \<open>param_type\<close>\<close>
  | BadArgumentUsage string         \<comment> \<open>the message\<close>

text \<open>The three handler classes imported from \<open>sgpt\<close>.\<close>

datatype handler = DefaultHandler | ChatHandler | ReplHandler

text \<open>The parameters of \<open>main\<close>, as Typer passes them; \<open>None\<close> is Python's \<open>None\<close>.
  The field \<open>model\<close> holds \<open>model.value\<close>, the only use \<open>main\<close> makes of it.\<close>

record 'f args =
  prompt :: "string option"
  model :: string
  temperature :: 'f
  top_probability :: 'f
  shell :: bool
  code :: bool
  editor :: bool
  cache :: bool
  chat :: "string option"
  repl :: "string option"
  show_chat :: "string option"
  list_chat :: bool

text \<open>One call \<open>H(client, [id,] shell, code).handle(prompt, model=..., ...)\<close>: the
  construction of the handler and the call of its \<open>handle\<close>, taken together.\<close>

record 'f handler_call =
  hc_handler :: handler
  hc_init_id :: "string option"    \<comment> \<open>the id given to the constructor; none for \<open>DefaultHandler\<close>\<close>
  hc_shell :: bool
  hc_code :: bool
  hc_prompt :: "string option"
  hc_model :: string
  hc_temperature :: 'f
  hc_top_probability :: 'f
  hc_chat_id :: "string option"    \<comment> \<open>the keyword \<open>chat_id\<close>; absent for \<open>DefaultHandler\<close>\<close>
  hc_caching :: bool

text \<open>What \<open>main\<close> does to the outside world, in order.\<close>

datatype 'f event =
    StdinRead                          \<comment> \<open>\<open>sys.stdin.read()\<close>\<close>
  | EditorOpened                       \<comment> \<open>\<open>get_edited_prompt()\<close>\<close>
  | CfgGet string                      \<comment> \<open>\<open>cfg.get(key)\<close>\<close>
  | ClientCreated string string        \<comment> \<open>\<open>OpenAIClient(api_host, api_key)\<close>\<close>
  | HandlerInvoked "'f handler_call"   \<comment> \<open>\<open>....handle(...)\<close>\<close>
  | Confirm string "bool option"       \<comment> \<open>\<open>typer.confirm(text)\<close> shown, and the user's answer\<close>
  | RunCommand string                  \<comment> \<open>\<open>run_command(full_completion)\<close>\<close>

text \<open>The collaborators. \<open>handle\<close> answers the text a handler returns, \<open>confirm\<close> the
  user's answer to the prompt, \<open>run_command\<close> whether the shell call returns; \<open>None\<close>
  and \<open>False\<close> stand for a call that does not return to \<open>main\<close>.\<close>

record 'f env =
  stdin_isatty :: bool
  stdin_text :: string
  get_edited_prompt :: "string option"
  cfg_get :: "string \<Rightarrow> string"
  handle :: "'f handler_call \<Rightarrow> string option"
  confirm :: "string \<Rightarrow> bool option"
  run_command :: "string \<Rightarrow> bool"

text \<open>How an invocation ends: \<open>main\<close> returns (exit status 0), \<open>main\<close> raises one of its
  own errors, or a collaborator did not return.\<close>

datatype outcome = Returned | Raised error | Aborted

subsection \<open>Python's truth value and \<open>or\<close> on an optional string\<close>

definition truthy :: "string option \<Rightarrow> bool" where
  "truthy s = (case s of None \<Rightarrow> False | Some t \<Rightarrow> t \<noteq> [])"

definition or_empty :: "string option \<Rightarrow> string" where
  "or_empty s = (case s of None \<Rightarrow> [] | Some t \<Rightarrow> (if t = [] then [] else t))"

subsection \<open>The body of \<open>main\<close>\<close>

text \<open>Line 90: \<open>stdin_passed = not sys.stdin.isatty()\<close>.\<close>

definition stdin_passed :: "'f env \<Rightarrow> bool" where
  "stdin_passed e = (\<not> stdin_isatty e)"

text \<open>Lines 92-93: piped input is read and put in front of the prompt, unless \<open>repl\<close>.\<close>

definition read_prompt :: "'f env \<Rightarrow> 'f args \<Rightarrow> 'f event list \<times> string option" where
  "read_prompt e a =
     (if stdin_passed e \<and> \<not> truthy (repl a)
      then ([StdinRead], Some (stdin_text e @ or_empty (prompt a)))
      else ([], prompt a))"

text \<open>Lines 95-105: the four checks, in the order of the source.\<close>

definition check_usage :: "'f env \<Rightarrow> 'f args \<Rightarrow> string option \<Rightarrow> error option" where
  "check_usage e a p =
     (if \<not> truthy p \<and> \<not> editor a \<and> \<not> truthy (repl a)
      then Some (MissingParameter ''PROMPT'' ''string'')
      else if shell a \<and> code a
      then Some (BadArgumentUsage ''--shell and --code options cannot be used together.'')
      else if truthy (chat a) \<and> truthy (repl a)
      then Some (BadArgumentUsage ''--chat and --repl options cannot be used together.'')
      else if editor a \<and> stdin_passed e
      then Some (BadArgumentUsage ''--editor option cannot be used with stdin input.'')
      else None)"

text \<open>Lines 107-108: the editor replaces the prompt.\<close>

definition edit_prompt :: "'f env \<Rightarrow> 'f args \<Rightarrow> string option \<Rightarrow> 'f event list \<times> string option option" where
  "edit_prompt e a p =
     (if editor a
      then ([EditorOpened], map_option Some (get_edited_prompt e))
      else ([], Some p))"

text \<open>Lines 110-112: the client is built from two configuration values.\<close>

definition make_client :: "'f env \<Rightarrow> 'f event list" where
  "make_client e =
     [CfgGet ''OPENAI_API_HOST'', CfgGet ''OPENAI_API_KEY'',
      ClientCreated (cfg_get e ''OPENAI_API_HOST'') (cfg_get e ''OPENAI_API_KEY'')]"

text \<open>The three calls of lines 116-123, 126-133 and 135-141.\<close>

definition repl_call :: "'f args \<Rightarrow> string option \<Rightarrow> 'f handler_call" where
  "repl_call a p =
     \<lparr>hc_handler = ReplHandler, hc_init_id = repl a, hc_shell = shell a, hc_code = code a,
      hc_prompt = p, hc_model = model a, hc_temperature = temperature a,
      hc_top_probability = top_probability a, hc_chat_id = repl a, hc_caching = cache a\<rparr>"

definition chat_call :: "'f args \<Rightarrow> string option \<Rightarrow> 'f handler_call" where
  "chat_call a p =
     \<lparr>hc_handler = ChatHandler, hc_init_id = chat a, hc_shell = shell a, hc_code = code a,
      hc_prompt = p, hc_model = model a, hc_temperature = temperature a,
      hc_top_probability = top_probability a, hc_chat_id = chat a, hc_caching = cache a\<rparr>"

definition default_call :: "'f args \<Rightarrow> string option \<Rightarrow> 'f handler_call" where
  "default_call a p =
     \<lparr>hc_handler = DefaultHandler, hc_init_id = None, hc_shell = shell a, hc_code = code a,
      hc_prompt = p, hc_model = model a, hc_temperature = temperature a,
      hc_top_probability = top_probability a, hc_chat_id = None, hc_caching = cache a\<rparr>"

text \<open>Lines 114-123: \<open>if repl:\<close> calls the Repl handler and drops what it returns.
  The answer is whether the call returned.\<close>

definition run_repl :: "'f env \<Rightarrow> 'f args \<Rightarrow> string option \<Rightarrow> 'f event list \<times> bool" where
  "run_repl e a p =
     (if truthy (repl a)
      then ([HandlerInvoked (repl_call a p)], handle e (repl_call a p) \<noteq> None)
      else ([], True))"

text \<open>Lines 125-141: \<open>if chat: ... else: ...\<close> binds \<open>full_completion\<close>. This is a
  second \<open>if\<close>, not an \<open>elif\<close> of the first.\<close>

definition run_chat_or_default :: "'f env \<Rightarrow> 'f args \<Rightarrow> string option \<Rightarrow> 'f event list \<times> string option" where
  "run_chat_or_default e a p =
     (if truthy (chat a)
      then ([HandlerInvoked (chat_call a p)], handle e (chat_call a p))
      else ([HandlerInvoked (default_call a p)], handle e (default_call a p)))"

text \<open>Lines 143-144: \<open>shell and not stdin_passed and typer.confirm(...)\<close>, evaluated
  left to right, then \<open>run_command\<close>.\<close>

definition confirm_and_run :: "'f env \<Rightarrow> 'f args \<Rightarrow> string \<Rightarrow> 'f event list \<times> outcome" where
  "confirm_and_run e a full_completion =
     (if shell a \<and> \<not> stdin_passed e
      then (case confirm e ''Execute shell command?'' of
              None \<Rightarrow> ([Confirm ''Execute shell command?'' None], Aborted)
            | Some False \<Rightarrow> ([Confirm ''Execute shell command?'' (Some False)], Returned)
            | Some True \<Rightarrow>
                ([Confirm ''Execute shell command?'' (Some True), RunCommand full_completion],
                 if run_command e full_completion then Returned else Aborted))
      else ([], Returned))"

text \<open>Lines 114-144, once the client exists.\<close>

definition run_handlers :: "'f env \<Rightarrow> 'f args \<Rightarrow> string option \<Rightarrow> 'f event list \<times> outcome" where
  "run_handlers e a p =
     (case run_repl e a p of
        (t1, False) \<Rightarrow> (t1, Aborted)
      | (t1, True) \<Rightarrow>
          (case run_chat_or_default e a p of
             (t2, None) \<Rightarrow> (t1 @ t2, Aborted)
           | (t2, Some full_completion) \<Rightarrow>
               (case confirm_and_run e a full_completion of
                  (t3, out) \<Rightarrow> (t1 @ t2 @ t3, out))))"

text \<open>The whole of \<open>main\<close>: the trace of its calls and how it ends.\<close>

definition main :: "'f env \<Rightarrow> 'f args \<Rightarrow> 'f event list \<times> outcome" where
  "main e a =
     (case read_prompt e a of
        (t0, p0) \<Rightarrow>
          (case check_usage e a p0 of
             Some err \<Rightarrow> (t0, Raised err)
           | None \<Rightarrow>
               (case edit_prompt e a p0 of
                  (t1, None) \<Rightarrow> (t0 @ t1, Aborted)
                | (t1, Some p) \<Rightarrow>
                    (case run_handlers e a p of
                       (t2, out) \<Rightarrow> (t0 @ t1 @ make_client e @ t2, out)))))"

subsection \<open>Reading a trace\<close>

text \<open>The handler classes invoked, in order.\<close>

fun handlers_invoked :: "'f event list \<Rightarrow> handler list" where
  "handlers_invoked [] = []"
| "handlers_invoked (HandlerInvoked c # tr) = hc_handler c # handlers_invoked tr"
| "handlers_invoked (_ # tr) = handlers_invoked tr"

text \<open>An event that constructs the completion client or enters a handler: the only
  ways \<open>main\<close> can reach the network, the cache or the conversation store.\<close>

fun reaches_client :: "'f event \<Rightarrow> bool" where
  "reaches_client (ClientCreated _ _) = True"
| "reaches_client (HandlerInvoked _) = True"
| "reaches_client _ = False"

fun is_confirm :: "'f event \<Rightarrow> bool" where
  "is_confirm (Confirm _ _) = True"
| "is_confirm _ = False"

fun is_run_command :: "'f event \<Rightarrow> bool" where
  "is_run_command (RunCommand _) = True"
| "is_run_command _ = False"

fun is_bad_argument_usage :: "outcome \<Rightarrow> bool" where
  "is_bad_argument_usage (Raised (BadArgumentUsage _)) = True"
| "is_bad_argument_usage _ = False"

fun is_missing_parameter :: "outcome \<Rightarrow> bool" where
  "is_missing_parameter (Raised (MissingParameter _ _)) = True"
| "is_missing_parameter _ = False"

subsection \<open>Concrete invocations\<close>

text \<open>A terminal session: standard input is a terminal, the editor gives back a text,
  the Chat and Default handlers answer \<open>ls -la\<close>, the Repl handler never returns (as the
  comment at line 115 says), the user confirms, the shell call returns.\<close>

definition tty_env :: "real env" where
  "tty_env =
     \<lparr>stdin_isatty = True, stdin_text = [], get_edited_prompt = Some ''edited prompt'',
      cfg_get = (\<lambda>k. if k = ''OPENAI_API_HOST'' then ''https://api.openai.com'' else ''sk-key''),
      handle = (\<lambda>c. if hc_handler c = ReplHandler then None else Some ''ls -la''),
      confirm = (\<lambda>t. Some True), run_command = (\<lambda>c. True)\<rparr>"

text \<open>The same session with a user who declines the confirmation.\<close>

definition declining_env :: "real env" where
  "declining_env = tty_env\<lparr>confirm := (\<lambda>t. Some False)\<rparr>"

text \<open>The same session with \<open>README.md \<close> piped into standard input.\<close>

definition pipe_env :: "real env" where
  "pipe_env = tty_env\<lparr>stdin_isatty := False, stdin_text := ''README.md ''\<rparr>"

text \<open>A session whose Repl handler returns to \<open>main\<close>.\<close>

definition returning_repl_env :: "real env" where
  "returning_repl_env = tty_env\<lparr>handle := (\<lambda>c. Some ''ls -la'')\<rparr>"

text \<open>\<open>sgpt "list files"\<close>: every option at the default of its declaration.\<close>

definition default_args :: "real args" where
  "default_args =
     \<lparr>prompt = Some ''list files'', model = ''gpt-3.5-turbo'', temperature = 0.1,
      top_probability = 1, shell = False, code = False, editor = False, cache = True,
      chat = None, repl = None, show_chat = None, list_chat = False\<rparr>"

subsection \<open>The options Typer checks before \<open>main\<close>\<close>

text \<open>A Python float: a finite number, an infinity or NaN. The finite ones are taken as
  reals, which keeps their order, and the order is all the range check looks at.\<close>

datatype pyfloat = Finite real | PosInf | NegInf | NaN

text \<open>Python's \<open><\<close> on floats: every comparison with NaN is false.\<close>

fun float_lt :: "pyfloat \<Rightarrow> pyfloat \<Rightarrow> bool" where
  "float_lt NaN _ = False"
| "float_lt _ NaN = False"
| "float_lt (Finite x) (Finite y) = (x < y)"
| "float_lt NegInf NegInf = False"
| "float_lt NegInf _ = True"
| "float_lt _ NegInf = False"
| "float_lt PosInf _ = False"
| "float_lt _ PosInf = True"

text \<open>Modelled from the spec: the range check that Typer and Click apply to a float
  option declared with \<open>min\<close> and \<open>max\<close>; their code is not under \<open>src/\<close>. The spec has
  values outside the range rejected at argument parsing; Click's float range does so by
  two comparisons, rejecting a value that compares below \<open>min\<close> or above \<open>max\<close> and
  handing any other value on unchanged (no clamping is asked for at lines 35-45).\<close>

definition float_range_convert :: "pyfloat \<Rightarrow> pyfloat \<Rightarrow> pyfloat \<Rightarrow> pyfloat option" where
  "float_range_convert lo hi rv =
     (if float_lt rv lo \<or> float_lt hi rv then None else Some rv)"








section \<open>Properties of \<open>main\<close>\<close>

subsection \<open>The trace and the outcome, stage by stage\<close>

lemma read_prompt_trace:
  "fst (read_prompt e a) = (if stdin_passed e \<and> \<not> truthy (repl a) then [StdinRead] else [])"
  by (simp add: read_prompt_def)

lemma edit_prompt_trace:
  "fst (edit_prompt e a p) = (if editor a then [EditorOpened] else [])"
  by (simp add: edit_prompt_def)

lemma edit_prompt_result:
  "snd (edit_prompt e a p) = (if editor a then map_option Some (get_edited_prompt e) else Some p)"
  by (simp add: edit_prompt_def)

lemma repl_trace:
  "fst (run_repl e a p) = (if truthy (repl a) then [HandlerInvoked (repl_call a p)] else [])"
  by (simp add: run_repl_def)

lemma repl_returned:
  "snd (run_repl e a p) = (truthy (repl a) \<longrightarrow> handle e (repl_call a p) \<noteq> None)"
  by (simp add: run_repl_def)

lemma chat_or_default_trace:
  "fst (run_chat_or_default e a p) =
     [HandlerInvoked (if truthy (chat a) then chat_call a p else default_call a p)]"
  by (simp add: run_chat_or_default_def)

lemma chat_or_default_result:
  "snd (run_chat_or_default e a p) =
     handle e (if truthy (chat a) then chat_call a p else default_call a p)"
  by (simp add: run_chat_or_default_def)

lemma confirm_trace:
  "fst (confirm_and_run e a c) =
     (if shell a \<and> \<not> stdin_passed e
      then Confirm ''Execute shell command?'' (confirm e ''Execute shell command?'') #
           (if confirm e ''Execute shell command?'' = Some True then [RunCommand c] else [])
      else [])"
  by (simp add: confirm_and_run_def split: option.splits bool.splits)

lemma confirm_outcome:
  "snd (confirm_and_run e a c) =
     (if shell a \<and> \<not> stdin_passed e
      then (case confirm e ''Execute shell command?'' of
              None \<Rightarrow> Aborted
            | Some False \<Rightarrow> Returned
            | Some True \<Rightarrow> if run_command e c then Returned else Aborted)
      else Returned)"
  by (simp add: confirm_and_run_def split: option.splits bool.splits)

lemma run_handlers_trace:
  "fst (run_handlers e a p) =
     fst (run_repl e a p) @
     (if snd (run_repl e a p)
      then fst (run_chat_or_default e a p) @
           (case snd (run_chat_or_default e a p) of
              None \<Rightarrow> []
            | Some c \<Rightarrow> fst (confirm_and_run e a c))
      else [])"
  by (cases "run_repl e a p"; cases "run_chat_or_default e a p")
     (simp add: run_handlers_def split: option.splits prod.splits)

lemma run_handlers_outcome:
  "snd (run_handlers e a p) =
     (if snd (run_repl e a p)
      then (case snd (run_chat_or_default e a p) of
              None \<Rightarrow> Aborted
            | Some c \<Rightarrow> snd (confirm_and_run e a c))
      else Aborted)"
  by (cases "run_repl e a p"; cases "run_chat_or_default e a p")
     (simp add: run_handlers_def split: option.splits prod.splits)

lemma main_trace:
  "fst (main e a) =
     fst (read_prompt e a) @
     (case check_usage e a (snd (read_prompt e a)) of
        Some err \<Rightarrow> []
      | None \<Rightarrow>
          fst (edit_prompt e a (snd (read_prompt e a))) @
          (case snd (edit_prompt e a (snd (read_prompt e a))) of
             None \<Rightarrow> []
           | Some p \<Rightarrow> make_client e @ fst (run_handlers e a p)))"
  by (cases "read_prompt e a"; cases "edit_prompt e a (snd (read_prompt e a))")
     (simp add: main_def split: option.splits prod.splits)

lemma main_outcome:
  "snd (main e a) =
     (case check_usage e a (snd (read_prompt e a)) of
        Some err \<Rightarrow> Raised err
      | None \<Rightarrow>
          (case snd (edit_prompt e a (snd (read_prompt e a))) of
             None \<Rightarrow> Aborted
           | Some p \<Rightarrow> snd (run_handlers e a p)))"
  by (cases "read_prompt e a"; cases "edit_prompt e a (snd (read_prompt e a))")
     (simp add: main_def split: option.splits prod.splits)

lemmas stage_traces = read_prompt_trace edit_prompt_trace make_client_def repl_trace
  chat_or_default_trace confirm_trace run_handlers_trace

lemmas stage_defs = main_def read_prompt_def check_usage_def edit_prompt_def make_client_def
  run_handlers_def run_repl_def run_chat_or_default_def confirm_and_run_def stdin_passed_def
  repl_call_def chat_call_def default_call_def truthy_def or_empty_def

lemmas example_defs = tty_env_def declining_env_def pipe_env_def returning_repl_env_def
  default_args_def

lemma call_handler [simp]:
  "hc_handler (repl_call a p) = ReplHandler"
  "hc_handler (chat_call a p) = ChatHandler"
  "hc_handler (default_call a p) = DefaultHandler"
  by (simp_all add: repl_call_def chat_call_def default_call_def)

lemma call_prompt [simp]:
  "hc_prompt (repl_call a p) = p"
  "hc_prompt (chat_call a p) = p"
  "hc_prompt (default_call a p) = p"
  by (simp_all add: repl_call_def chat_call_def default_call_def)

lemma handlers_invoked_append [simp]:
  "handlers_invoked (xs @ ys) = handlers_invoked xs @ handlers_invoked ys"
  by (induction xs rule: handlers_invoked.induct) simp_all

subsection \<open>Only the four checks raise\<close>

lemma main_rejected:
  "check_usage e a (snd (read_prompt e a)) = Some err \<Longrightarrow>
   main e a = (fst (read_prompt e a), Raised err)"
  by (cases "read_prompt e a") (simp add: main_def)

lemma confirm_and_run_not_raised: "snd (confirm_and_run e a c) \<noteq> Raised err"
  by (simp add: confirm_outcome split: option.splits bool.splits)

lemma run_handlers_not_raised: "snd (run_handlers e a p) \<noteq> Raised err"
  by (simp add: run_handlers_outcome confirm_and_run_not_raised split: option.splits)

lemma main_accepted:
  "check_usage e a (snd (read_prompt e a)) = None \<Longrightarrow> snd (main e a) \<noteq> Raised err"
  by (simp add: main_outcome run_handlers_not_raised split: option.splits)

lemma main_raised_iff:
  "snd (main e a) = Raised err \<longleftrightarrow> check_usage e a (snd (read_prompt e a)) = Some err"
proof (cases "check_usage e a (snd (read_prompt e a))")
  case None
  then show ?thesis using main_accepted [of e a err] by simp
next
  case (Some x)
  then show ?thesis using main_rejected [of e a x] by auto
qed


subsection \<open>The configuration checks\<close>

text \<open>
  C1. As stated: whenever \<open>shell\<close> and \<open>code\<close> are both set, \<open>main\<close> raises a
  bad-argument-usage error, invokes no handler and makes no network call.

  The check for a missing prompt (line 95) comes before the check of \<open>shell\<close> with
  \<open>code\<close> (line 98). What holds is: with both flags set \<open>main\<close> always raises one of its
  own configuration errors, never constructs the client and never enters a handler; the
  error is \<open>MissingParameter\<close> when the effective prompt is empty and neither \<open>editor\<close>
  nor \<open>repl\<close> is set, and the \<open>BadArgumentUsage\<close> of line 99 in every other case.
\<close>

theorem shell_and_code_rejected:
  assumes "shell a" and "code a"
  shows "snd (main e a) =
           Raised (if \<not> truthy (snd (read_prompt e a)) \<and> \<not> editor a \<and> \<not> truthy (repl a)
                   then MissingParameter ''PROMPT'' ''string''
                   else BadArgumentUsage ''--shell and --code options cannot be used together.'')
         \<and> handlers_invoked (fst (main e a)) = []
         \<and> filter reaches_client (fst (main e a)) = []"
proof -
  let ?err = "if \<not> truthy (snd (read_prompt e a)) \<and> \<not> editor a \<and> \<not> truthy (repl a)
              then MissingParameter ''PROMPT'' ''string''
              else BadArgumentUsage ''--shell and --code options cannot be used together.''"
  have "check_usage e a (snd (read_prompt e a)) = Some ?err"
    using assms by (simp add: check_usage_def)
  then have "main e a = (fst (read_prompt e a), Raised ?err)"
    by (rule main_rejected)
  then show ?thesis
    by (simp add: read_prompt_trace)
qed

text \<open>\<open>sgpt --shell --code "list files"\<close> on a terminal: the error of line 99.\<close>

theorem shell_and_code_rejected_witness:
  "shell (default_args\<lparr>shell := True, code := True\<rparr>)
   \<and> code (default_args\<lparr>shell := True, code := True\<rparr>)
   \<and> snd (main tty_env (default_args\<lparr>shell := True, code := True\<rparr>)) =
       Raised (BadArgumentUsage ''--shell and --code options cannot be used together.'')
   \<and> handlers_invoked (fst (main tty_env (default_args\<lparr>shell := True, code := True\<rparr>))) = []
   \<and> filter reaches_client (fst (main tty_env (default_args\<lparr>shell := True, code := True\<rparr>))) = []"
  using shell_and_code_rejected [of "default_args\<lparr>shell := True, code := True\<rparr>" tty_env]
  by (simp add: example_defs read_prompt_def stdin_passed_def truthy_def)

text \<open>\<open>sgpt --shell --code\<close> on a terminal, without a prompt: both flags are set and the
  error is the missing parameter of line 96, not a bad argument usage.\<close>

theorem shell_and_code_without_prompt_counterexample:
  "shell (default_args\<lparr>prompt := None, shell := True, code := True\<rparr>)
   \<and> code (default_args\<lparr>prompt := None, shell := True, code := True\<rparr>)
   \<and> main tty_env (default_args\<lparr>prompt := None, shell := True, code := True\<rparr>) =
       ([], Raised (MissingParameter ''PROMPT'' ''string''))
   \<and> \<not> is_bad_argument_usage
          (snd (main tty_env (default_args\<lparr>prompt := None, shell := True, code := True\<rparr>)))"
  by (simp add: example_defs stage_defs)

text \<open>
  C4. \<open>main\<close> raises a configuration error exactly when the prompt is missing, \<open>shell\<close>
  comes with \<open>code\<close>, \<open>chat\<close> comes with \<open>repl\<close>, or \<open>editor\<close> comes with piped input;
  and when it does, all it has done is, at most, read standard input: no client was
  constructed and no handler invoked, so nothing reached the network, the cache or the
  conversation store.
\<close>

theorem configuration_error_before_client:
  "((\<exists>err. snd (main e a) = Raised err) \<longleftrightarrow>
      (\<not> truthy (snd (read_prompt e a)) \<and> \<not> editor a \<and> \<not> truthy (repl a))
      \<or> (shell a \<and> code a)
      \<or> (truthy (chat a) \<and> truthy (repl a))
      \<or> (editor a \<and> \<not> stdin_isatty e))
   \<and> (snd (main e a) = Raised err \<longrightarrow>
        set (fst (main e a)) \<subseteq> {StdinRead}
        \<and> filter reaches_client (fst (main e a)) = []
        \<and> handlers_invoked (fst (main e a)) = [])"
proof -
  have "(\<exists>err. check_usage e a (snd (read_prompt e a)) = Some err) \<longleftrightarrow>
      (\<not> truthy (snd (read_prompt e a)) \<and> \<not> editor a \<and> \<not> truthy (repl a))
      \<or> (shell a \<and> code a)
      \<or> (truthy (chat a) \<and> truthy (repl a))
      \<or> (editor a \<and> \<not> stdin_isatty e)"
    by (simp add: check_usage_def stdin_passed_def)
  moreover have "snd (main e a) = Raised err \<longrightarrow>
        set (fst (main e a)) \<subseteq> {StdinRead}
        \<and> filter reaches_client (fst (main e a)) = []
        \<and> handlers_invoked (fst (main e a)) = []"
  proof
    assume "snd (main e a) = Raised err"
    then have "main e a = (fst (read_prompt e a), Raised err)"
      by (simp add: main_raised_iff main_rejected)
    then show "set (fst (main e a)) \<subseteq> {StdinRead}
        \<and> filter reaches_client (fst (main e a)) = []
        \<and> handlers_invoked (fst (main e a)) = []"
      by (auto simp: read_prompt_trace)
  qed
  ultimately show ?thesis
    by (simp add: main_raised_iff)
qed

text \<open>\<open>sgpt --editor "list files"\<close> with piped input: standard input has been read, and
  nothing else has happened, when the error of line 105 is raised.\<close>

theorem configuration_error_before_client_witness:
  "snd (main pipe_env (default_args\<lparr>editor := True\<rparr>)) =
     Raised (BadArgumentUsage ''--editor option cannot be used with stdin input.'')
   \<and> editor (default_args\<lparr>editor := True\<rparr>) \<and> \<not> stdin_isatty pipe_env
   \<and> fst (main pipe_env (default_args\<lparr>editor := True\<rparr>)) = [StdinRead]
   \<and> set (fst (main pipe_env (default_args\<lparr>editor := True\<rparr>))) \<subseteq> {StdinRead}
   \<and> filter reaches_client (fst (main pipe_env (default_args\<lparr>editor := True\<rparr>))) = []
   \<and> handlers_invoked (fst (main pipe_env (default_args\<lparr>editor := True\<rparr>))) = []"
  using configuration_error_before_client
          [of pipe_env "default_args\<lparr>editor := True\<rparr>"
              "BadArgumentUsage ''--editor option cannot be used with stdin input.''"]
  by (simp add: example_defs stage_defs)

text \<open>
  C5. Whenever \<open>chat\<close> and \<open>repl\<close> are both given a non-empty value, \<open>main\<close> raises a
  bad-argument-usage error and invokes no handler. (It has then done nothing at all:
  with \<open>repl\<close> set, not even standard input is read.)
\<close>

theorem chat_and_repl_rejected:
  assumes "truthy (chat a)" and "truthy (repl a)"
  shows "is_bad_argument_usage (snd (main e a))
         \<and> handlers_invoked (fst (main e a)) = []
         \<and> fst (main e a) = []"
proof -
  let ?err = "if shell a \<and> code a
              then BadArgumentUsage ''--shell and --code options cannot be used together.''
              else BadArgumentUsage ''--chat and --repl options cannot be used together.''"
  have "check_usage e a (snd (read_prompt e a)) = Some ?err"
    using assms by (simp add: check_usage_def)
  then have "main e a = (fst (read_prompt e a), Raised ?err)"
    by (rule main_rejected)
  then show ?thesis
    using assms by (simp add: read_prompt_trace)
qed

text \<open>\<open>sgpt --chat demo --repl demo "list files"\<close>.\<close>

theorem chat_and_repl_rejected_witness:
  "truthy (chat (default_args\<lparr>chat := Some ''demo'', repl := Some ''demo''\<rparr>))
   \<and> truthy (repl (default_args\<lparr>chat := Some ''demo'', repl := Some ''demo''\<rparr>))
   \<and> main tty_env (default_args\<lparr>chat := Some ''demo'', repl := Some ''demo''\<rparr>) =
       ([], Raised (BadArgumentUsage ''--chat and --repl options cannot be used together.''))
   \<and> is_bad_argument_usage
       (snd (main tty_env (default_args\<lparr>chat := Some ''demo'', repl := Some ''demo''\<rparr>)))"
  using chat_and_repl_rejected
          [of "default_args\<lparr>chat := Some ''demo'', repl := Some ''demo''\<rparr>" tty_env]
  by (simp add: example_defs stage_defs)

text \<open>
  C6. Whenever \<open>editor\<close> is set and standard input is piped, \<open>main\<close> raises a
  bad-argument-usage error; the editor is not opened, no client is constructed and no
  handler is invoked.
\<close>

theorem editor_with_stdin_rejected:
  assumes "editor a" and "\<not> stdin_isatty e"
  shows "is_bad_argument_usage (snd (main e a))
         \<and> EditorOpened \<notin> set (fst (main e a))
         \<and> handlers_invoked (fst (main e a)) = []
         \<and> filter reaches_client (fst (main e a)) = []"
proof -
  let ?m = "if shell a \<and> code a
            then ''--shell and --code options cannot be used together.''
            else if truthy (chat a) \<and> truthy (repl a)
            then ''--chat and --repl options cannot be used together.''
            else ''--editor option cannot be used with stdin input.''"
  have "check_usage e a (snd (read_prompt e a)) = Some (BadArgumentUsage ?m)"
    using assms by (simp add: check_usage_def stdin_passed_def)
  then have "main e a = (fst (read_prompt e a), Raised (BadArgumentUsage ?m))"
    by (rule main_rejected)
  then show ?thesis
    by (simp add: read_prompt_trace)
qed

text \<open>\<open>cat README.md | sgpt --editor\<close>.\<close>

theorem editor_with_stdin_rejected_witness:
  "editor (default_args\<lparr>prompt := None, editor := True\<rparr>) \<and> \<not> stdin_isatty pipe_env
   \<and> is_bad_argument_usage (snd (main pipe_env (default_args\<lparr>prompt := None, editor := True\<rparr>)))
   \<and> EditorOpened \<notin> set (fst (main pipe_env (default_args\<lparr>prompt := None, editor := True\<rparr>)))
   \<and> handlers_invoked (fst (main pipe_env (default_args\<lparr>prompt := None, editor := True\<rparr>))) = []
   \<and> filter reaches_client (fst (main pipe_env (default_args\<lparr>prompt := None, editor := True\<rparr>))) = []"
  using editor_with_stdin_rejected [of "default_args\<lparr>prompt := None, editor := True\<rparr>" pipe_env]
  by (simp add: example_defs)

text \<open>
  C7. Whenever the effective prompt is empty (no prompt argument or an empty one, and
  standard input a terminal or empty) and neither \<open>editor\<close> nor \<open>repl\<close> is set, \<open>main\<close>
  raises the missing-parameter error for \<open>PROMPT\<close>, before any client is constructed
  or handler invoked.
\<close>

theorem missing_prompt_rejected:
  assumes "\<not> truthy (prompt a)" and "stdin_isatty e \<or> stdin_text e = []"
    and "\<not> editor a" and "\<not> truthy (repl a)"
  shows "snd (main e a) = Raised (MissingParameter ''PROMPT'' ''string'')
         \<and> filter reaches_client (fst (main e a)) = []
         \<and> handlers_invoked (fst (main e a)) = []"
proof -
  have "\<not> truthy (snd (read_prompt e a))"
    using assms
    by (auto simp: read_prompt_def stdin_passed_def truthy_def or_empty_def split: option.splits)
  then have "check_usage e a (snd (read_prompt e a)) = Some (MissingParameter ''PROMPT'' ''string'')"
    using assms by (simp add: check_usage_def)
  then have "main e a = (fst (read_prompt e a), Raised (MissingParameter ''PROMPT'' ''string''))"
    by (rule main_rejected)
  then show ?thesis
    by (simp add: read_prompt_trace)
qed

text \<open>\<open>sgpt\<close> on a terminal, with no argument at all.\<close>

theorem missing_prompt_rejected_witness:
  "\<not> truthy (prompt (default_args\<lparr>prompt := None\<rparr>))
   \<and> stdin_isatty tty_env
   \<and> \<not> editor (default_args\<lparr>prompt := None\<rparr>)
   \<and> \<not> truthy (repl (default_args\<lparr>prompt := None\<rparr>))
   \<and> snd (main tty_env (default_args\<lparr>prompt := None\<rparr>)) =
       Raised (MissingParameter ''PROMPT'' ''string'')
   \<and> filter reaches_client (fst (main tty_env (default_args\<lparr>prompt := None\<rparr>))) = []
   \<and> handlers_invoked (fst (main tty_env (default_args\<lparr>prompt := None\<rparr>))) = []"
  using missing_prompt_rejected [of "default_args\<lparr>prompt := None\<rparr>" tty_env]
  by (simp add: example_defs truthy_def)

subsection \<open>Which handler runs\<close>

text \<open>
  C2. As stated: every invocation selects and invokes exactly one handler, Repl when
  \<open>repl\<close> is given, otherwise Chat when \<open>chat\<close> is given, otherwise Default.

  An invocation that raises a configuration error invokes no handler at all. What holds:
  when no configuration error is raised and the editor, if asked for, gives a prompt
  back, the first handler invoked is Repl when \<open>repl\<close> is non-empty, otherwise Chat when
  \<open>chat\<close> is non-empty, otherwise Default; and it is the only one when \<open>repl\<close> is empty or
  absent, or when the Repl handler does not return to \<open>main\<close>. An invocation that raises
  a configuration error invokes none.
\<close>

theorem handler_selected_by_flags:
  "((\<forall>err. snd (main e a) \<noteq> Raised err) \<and> (editor a \<longrightarrow> get_edited_prompt e \<noteq> None) \<longrightarrow>
      (\<exists>rest. handlers_invoked (fst (main e a)) =
                 (if truthy (repl a) then ReplHandler
                  else if truthy (chat a) then ChatHandler else DefaultHandler) # rest
         \<and> (\<not> truthy (repl a) \<or> (\<forall>c. hc_handler c = ReplHandler \<longrightarrow> handle e c = None)
              \<longrightarrow> rest = [])))
   \<and> ((\<exists>err. snd (main e a) = Raised err) \<longrightarrow> handlers_invoked (fst (main e a)) = [])"
proof (cases "check_usage e a (snd (read_prompt e a))")
  case (Some err)
  then have "main e a = (fst (read_prompt e a), Raised err)"
    by (rule main_rejected)
  then show ?thesis
    by (simp add: read_prompt_trace)
next
  case None
  then have not_raised: "\<forall>err. snd (main e a) \<noteq> Raised err"
    by (simp add: main_raised_iff)
  show ?thesis
  proof (cases "snd (edit_prompt e a (snd (read_prompt e a)))")
    case None
    then have "editor a \<and> get_edited_prompt e = None"
      by (simp add: edit_prompt_result split: if_splits)
    with not_raised show ?thesis
      by simp
  next
    case (Some p)
    have "handlers_invoked (fst (main e a)) = handlers_invoked (fst (run_handlers e a p))"
      using \<open>check_usage e a (snd (read_prompt e a)) = None\<close> Some
      by (simp add: main_trace read_prompt_trace edit_prompt_trace make_client_def)
    also have "\<dots> =
        (if truthy (repl a)
         then ReplHandler #
              (if handle e (repl_call a p) = None then []
               else [if truthy (chat a) then ChatHandler else DefaultHandler])
         else [if truthy (chat a) then ChatHandler else DefaultHandler])"
      by (simp add: run_handlers_trace repl_trace repl_returned chat_or_default_trace
            confirm_trace split: option.splits)
    finally have invoked: "handlers_invoked (fst (main e a)) =
        (if truthy (repl a)
         then ReplHandler #
              (if handle e (repl_call a p) = None then []
               else [if truthy (chat a) then ChatHandler else DefaultHandler])
         else [if truthy (chat a) then ChatHandler else DefaultHandler])" .
    have "hc_handler (repl_call a p) = ReplHandler"
      by simp
    then have "(\<forall>c. hc_handler c = ReplHandler \<longrightarrow> handle e c = None)
                 \<longrightarrow> handle e (repl_call a p) = None"
      by blast
    with not_raised invoked show ?thesis
      by auto
  qed
qed

text \<open>\<open>sgpt "list files"\<close> runs the Default handler alone, \<open>sgpt --repl demo\<close> the Repl
  handler alone when it never returns, and \<open>sgpt\<close> without a prompt runs none.\<close>

theorem handler_selected_by_flags_witness:
  "handlers_invoked (fst (main tty_env default_args)) = [DefaultHandler]
   \<and> snd (main tty_env default_args) = Returned
   \<and> handlers_invoked (fst (main tty_env (default_args\<lparr>chat := Some ''demo''\<rparr>))) = [ChatHandler]
   \<and> handlers_invoked (fst (main tty_env (default_args\<lparr>prompt := None, repl := Some ''demo''\<rparr>)))
       = [ReplHandler]
   \<and> snd (main tty_env (default_args\<lparr>prompt := None\<rparr>)) =
       Raised (MissingParameter ''PROMPT'' ''string'')
   \<and> handlers_invoked (fst (main tty_env (default_args\<lparr>prompt := None\<rparr>))) = []"
  using handler_selected_by_flags [of tty_env default_args]
    handler_selected_by_flags [of tty_env "default_args\<lparr>chat := Some ''demo''\<rparr>"]
    handler_selected_by_flags [of tty_env "default_args\<lparr>prompt := None, repl := Some ''demo''\<rparr>"]
    handler_selected_by_flags [of tty_env "default_args\<lparr>prompt := None\<rparr>"]
  by (simp add: example_defs stage_defs)

text \<open>\<open>sgpt\<close> on a terminal, with no argument: not one handler is invoked.\<close>

theorem no_handler_without_prompt_counterexample:
  "main tty_env (default_args\<lparr>prompt := None\<rparr>) = ([], Raised (MissingParameter ''PROMPT'' ''string''))
   \<and> handlers_invoked (fst (main tty_env (default_args\<lparr>prompt := None\<rparr>))) = []
   \<and> length (handlers_invoked (fst (main tty_env (default_args\<lparr>prompt := None\<rparr>)))) \<noteq> 1"
  by (simp add: example_defs stage_defs)

text \<open>Line 125 is an \<open>if\<close>, not an \<open>elif\<close>: were the Repl handler to return, the Default
  handler would run after it.\<close>

lemma returning_repl_example:
  "handlers_invoked (fst (main returning_repl_env (default_args\<lparr>repl := Some ''demo''\<rparr>)))
     = [ReplHandler, DefaultHandler]"
  by (simp add: example_defs stage_defs)

subsection \<open>The prompt the handlers receive\<close>

text \<open>
  C9. When standard input is piped and \<open>repl\<close> is not set (absent or empty), the
  effective prompt is the whole text of standard input followed by the prompt argument
  (nothing, when there is none); every handler \<open>main\<close> invokes receives it, and a
  handler is invoked with it, the Chat handler when \<open>chat\<close> is set and the Default
  handler otherwise, whenever that prompt is not empty and neither \<open>shell\<close> with \<open>code\<close>
  nor \<open>editor\<close> stops the invocation. When standard input is piped and \<open>repl\<close> is set,
  standard input is not read and the prompt stays the prompt argument: every handler
  invoked receives it as it is, and the Repl handler is invoked with it unless \<open>shell\<close>
  with \<open>code\<close>, \<open>chat\<close> or \<open>editor\<close> stops the invocation.
\<close>

theorem piped_stdin_prepended:
  "(\<not> stdin_isatty e \<and> \<not> truthy (repl a) \<longrightarrow>
      snd (read_prompt e a) = Some (stdin_text e @ (case prompt a of None \<Rightarrow> [] | Some s \<Rightarrow> s))
      \<and> (HandlerInvoked call \<in> set (fst (main e a)) \<longrightarrow>
            hc_prompt call = Some (stdin_text e @ (case prompt a of None \<Rightarrow> [] | Some s \<Rightarrow> s)))
      \<and> ((stdin_text e \<noteq> [] \<or> truthy (prompt a)) \<and> \<not> (shell a \<and> code a) \<and> \<not> editor a \<longrightarrow>
            StdinRead \<in> set (fst (main e a))
            \<and> HandlerInvoked
                 ((if truthy (chat a) then chat_call a else default_call a)
                    (Some (stdin_text e @ (case prompt a of None \<Rightarrow> [] | Some s \<Rightarrow> s))))
                 \<in> set (fst (main e a))))
   \<and> (\<not> stdin_isatty e \<and> truthy (repl a) \<longrightarrow>
        StdinRead \<notin> set (fst (main e a))
        \<and> snd (read_prompt e a) = prompt a
        \<and> (HandlerInvoked call \<in> set (fst (main e a)) \<longrightarrow> hc_prompt call = prompt a)
        \<and> (\<not> (shell a \<and> code a) \<and> \<not> truthy (chat a) \<and> \<not> editor a \<longrightarrow>
              HandlerInvoked (repl_call a (prompt a)) \<in> set (fst (main e a))))"
proof (cases "stdin_isatty e")
  case True
  then show ?thesis by simp
next
  case False
  let ?joined = "Some (stdin_text e @ (case prompt a of None \<Rightarrow> [] | Some s \<Rightarrow> s))"
  have p0: "snd (read_prompt e a) = (if truthy (repl a) then prompt a else ?joined)"
    using False by (simp add: read_prompt_def stdin_passed_def or_empty_def split: option.splits)
  have joined_truthy: "truthy ?joined \<longleftrightarrow> stdin_text e \<noteq> [] \<or> truthy (prompt a)"
    by (simp add: truthy_def split: option.splits)
  have passed: "stdin_passed e"
    using False by (simp add: stdin_passed_def)
  have every: "HandlerInvoked call \<in> set (fst (main e a)) \<longrightarrow>
                 hc_prompt call = (if truthy (repl a) then prompt a else ?joined)"
  proof (cases "check_usage e a (snd (read_prompt e a))")
    case (Some err)
    then show ?thesis
      by (simp add: main_trace read_prompt_trace)
  next
    case None
    with passed have "\<not> editor a"
      by (auto simp: check_usage_def split: if_splits)
    with None show ?thesis
      by (auto simp add: main_trace stage_traces edit_prompt_result p0
            split: if_splits option.splits)
  qed
  have piped: "(stdin_text e \<noteq> [] \<or> truthy (prompt a)) \<and> \<not> (shell a \<and> code a) \<and> \<not> editor a
                 \<and> \<not> truthy (repl a) \<longrightarrow>
               StdinRead \<in> set (fst (main e a))
               \<and> HandlerInvoked ((if truthy (chat a) then chat_call a else default_call a) ?joined)
                    \<in> set (fst (main e a))"
  proof
    assume h: "(stdin_text e \<noteq> [] \<or> truthy (prompt a)) \<and> \<not> (shell a \<and> code a) \<and> \<not> editor a
                 \<and> \<not> truthy (repl a)"
    then have "truthy (snd (read_prompt e a))"
      using joined_truthy by (simp add: p0)
    with h have "check_usage e a (snd (read_prompt e a)) = None"
      by (simp add: check_usage_def)
    with h passed
    show "StdinRead \<in> set (fst (main e a))
               \<and> HandlerInvoked ((if truthy (chat a) then chat_call a else default_call a) ?joined)
                    \<in> set (fst (main e a))"
      by (simp add: main_trace stage_traces edit_prompt_result p0 repl_returned)
  qed
  have with_repl: "truthy (repl a) \<and> \<not> (shell a \<and> code a) \<and> \<not> truthy (chat a) \<and> \<not> editor a \<longrightarrow>
                     HandlerInvoked (repl_call a (prompt a)) \<in> set (fst (main e a))"
  proof
    assume h: "truthy (repl a) \<and> \<not> (shell a \<and> code a) \<and> \<not> truthy (chat a) \<and> \<not> editor a"
    then have "check_usage e a (snd (read_prompt e a)) = None"
      by (simp add: check_usage_def)
    with h show "HandlerInvoked (repl_call a (prompt a)) \<in> set (fst (main e a))"
      by (simp add: main_trace stage_traces edit_prompt_result p0)
  qed
  have not_read: "truthy (repl a) \<longrightarrow> StdinRead \<notin> set (fst (main e a))"
    by (auto simp add: main_trace stage_traces split: option.splits if_splits)
  show ?thesis
    using False p0 every piped with_repl not_read by simp
qed

text \<open>With \<open>README.md \<close> piped in: \<open>sgpt "list files"\<close> gives the Default handler the
  prompt \<open>README.md list files\<close>, \<open>sgpt\<close> without an argument gives it \<open>README.md \<close>,
  \<open>--chat demo\<close> gives the Chat handler \<open>README.md list files\<close>, and with \<open>--repl demo\<close>
  nothing is read and the Repl handler gets \<open>list files\<close>.\<close>

theorem piped_stdin_prepended_witness:
  "\<not> stdin_isatty pipe_env \<and> \<not> truthy (repl default_args)
   \<and> stdin_text pipe_env \<noteq> []
   \<and> \<not> (shell default_args \<and> code default_args) \<and> \<not> editor default_args
   \<and> snd (read_prompt pipe_env default_args) = Some ''README.md list files''
   \<and> StdinRead \<in> set (fst (main pipe_env default_args))
   \<and> HandlerInvoked (default_call default_args (Some ''README.md list files''))
        \<in> set (fst (main pipe_env default_args))
   \<and> hc_prompt (default_call default_args (Some ''README.md list files''))
        = Some (stdin_text pipe_env @ ''list files'')
   \<and> HandlerInvoked (default_call (default_args\<lparr>prompt := None\<rparr>) (Some ''README.md ''))
        \<in> set (fst (main pipe_env (default_args\<lparr>prompt := None\<rparr>)))
   \<and> HandlerInvoked (chat_call (default_args\<lparr>chat := Some ''demo''\<rparr>) (Some ''README.md list files''))
        \<in> set (fst (main pipe_env (default_args\<lparr>chat := Some ''demo''\<rparr>)))
   \<and> truthy (repl (default_args\<lparr>repl := Some ''demo''\<rparr>))
   \<and> StdinRead \<notin> set (fst (main pipe_env (default_args\<lparr>repl := Some ''demo''\<rparr>)))
   \<and> HandlerInvoked (repl_call (default_args\<lparr>repl := Some ''demo''\<rparr>) (Some ''list files''))
        \<in> set (fst (main pipe_env (default_args\<lparr>repl := Some ''demo''\<rparr>)))
   \<and> hc_prompt (repl_call (default_args\<lparr>repl := Some ''demo''\<rparr>) (Some ''list files''))
        = prompt (default_args\<lparr>repl := Some ''demo''\<rparr>)"
  using piped_stdin_prepended
          [of pipe_env default_args "default_call default_args (Some ''README.md list files'')"]
    piped_stdin_prepended
          [of pipe_env "default_args\<lparr>prompt := None\<rparr>"
              "default_call (default_args\<lparr>prompt := None\<rparr>) (Some ''README.md '')"]
    piped_stdin_prepended
          [of pipe_env "default_args\<lparr>chat := Some ''demo''\<rparr>"
              "chat_call (default_args\<lparr>chat := Some ''demo''\<rparr>) (Some ''README.md list files'')"]
    piped_stdin_prepended
          [of pipe_env "default_args\<lparr>repl := Some ''demo''\<rparr>"
              "repl_call (default_args\<lparr>repl := Some ''demo''\<rparr>) (Some ''list files'')"]
  by (simp add: example_defs stage_defs)

subsection \<open>Executing the completion\<close>

text \<open>
  C3. \<open>main\<close> executes a shell command if and only if \<open>shell\<close> is set and the user
  answered the confirmation prompt with yes; the command it executes is the completion
  returned by the Chat or Default handler; and when the user answered no, no command is
  executed and \<open>main\<close> returns normally (exit status 0). The user's answer is the one
  recorded with the \<open>Confirm\<close> event, so an invocation that never shows the prompt has
  no answer.
\<close>

theorem command_run_iff_confirmed:
  "((\<exists>c. RunCommand c \<in> set (fst (main e a))) \<longleftrightarrow>
      shell a \<and> Confirm ''Execute shell command?'' (Some True) \<in> set (fst (main e a)))
   \<and> (RunCommand c \<in> set (fst (main e a)) \<longrightarrow>
        (\<exists>call. HandlerInvoked call \<in> set (fst (main e a)) \<and> hc_handler call \<noteq> ReplHandler
                \<and> handle e call = Some c))
   \<and> (Confirm t (Some False) \<in> set (fst (main e a)) \<longrightarrow>
        (\<forall>c. RunCommand c \<notin> set (fst (main e a))) \<and> snd (main e a) = Returned)"
proof (cases "check_usage e a (snd (read_prompt e a))")
  case (Some err)
  then show ?thesis
    by (simp add: main_trace read_prompt_trace)
next
  case None
  note accepted = this
  show ?thesis
  proof (cases "snd (edit_prompt e a (snd (read_prompt e a)))")
    case None
    with accepted show ?thesis
      by (simp add: main_trace read_prompt_trace edit_prompt_trace)
  next
    case (Some p)
    note edited = this
    let ?call = "if truthy (chat a) then chat_call a p else default_call a p"
    show ?thesis
    proof (cases "snd (run_repl e a p)")
      case False
      with accepted edited show ?thesis
        by (simp add: main_trace stage_traces)
    next
      case True
      show ?thesis
      proof (cases "handle e ?call")
        case None
        with accepted edited True show ?thesis
          by (simp add: main_trace stage_traces chat_or_default_result)
      next
        case (Some full_completion)
        have tr: "fst (main e a) =
                fst (read_prompt e a) @ fst (edit_prompt e a (snd (read_prompt e a))) @
                make_client e @ fst (run_repl e a p) @ [HandlerInvoked ?call] @
                fst (confirm_and_run e a full_completion)"
          using accepted edited True Some
          by (simp add: main_trace run_handlers_trace chat_or_default_trace chat_or_default_result)
        have out: "snd (main e a) = snd (confirm_and_run e a full_completion)"
          using accepted edited True Some
          by (simp add: main_outcome run_handlers_outcome chat_or_default_result)
        have call: "hc_handler ?call \<noteq> ReplHandler"
          by simp
        show ?thesis
          using Some call
          by (auto simp add: tr out read_prompt_trace edit_prompt_trace make_client_def repl_trace
                confirm_trace confirm_outcome simp del: call_handler
                split: option.splits bool.splits)
      qed
    qed
  qed
qed

text \<open>\<open>sgpt --shell "list files"\<close> on a terminal: a user who confirms has \<open>ls -la\<close>
  executed; for a user who declines nothing is executed and \<open>main\<close> returns.\<close>

theorem command_run_iff_confirmed_witness:
  "shell (default_args\<lparr>shell := True\<rparr>)
   \<and> Confirm ''Execute shell command?'' (Some True)
        \<in> set (fst (main tty_env (default_args\<lparr>shell := True\<rparr>)))
   \<and> RunCommand ''ls -la'' \<in> set (fst (main tty_env (default_args\<lparr>shell := True\<rparr>)))
   \<and> handle tty_env (default_call (default_args\<lparr>shell := True\<rparr>) (Some ''list files''))
        = Some ''ls -la''
   \<and> Confirm ''Execute shell command?'' (Some False)
        \<in> set (fst (main declining_env (default_args\<lparr>shell := True\<rparr>)))
   \<and> RunCommand ''ls -la'' \<notin> set (fst (main declining_env (default_args\<lparr>shell := True\<rparr>)))
   \<and> snd (main declining_env (default_args\<lparr>shell := True\<rparr>)) = Returned"
  using command_run_iff_confirmed
          [of tty_env "default_args\<lparr>shell := True\<rparr>" "''ls -la''" "''Execute shell command?''"]
    command_run_iff_confirmed
          [of declining_env "default_args\<lparr>shell := True\<rparr>" "''ls -la''"
              "''Execute shell command?''"]
  by (simp add: example_defs stage_defs)

text \<open>
  C10. Whenever \<open>shell\<close> is set and standard input is piped, \<open>main\<close> never shows the
  confirmation prompt and never executes a command, whatever the handlers return.
\<close>

theorem piped_shell_never_executes:
  assumes "shell a" and "\<not> stdin_isatty e"
  shows "filter is_confirm (fst (main e a)) = []
         \<and> filter is_run_command (fst (main e a)) = []"
proof -
  have "stdin_passed e"
    using assms by (simp add: stdin_passed_def)
  then show ?thesis
    by (simp add: main_trace stage_traces split: option.splits)
qed

text \<open>\<open>echo -n "README.md " | sgpt --shell "list files"\<close>: the handler runs, and
  \<open>main\<close> returns without asking.\<close>

theorem piped_shell_never_executes_witness:
  "shell (default_args\<lparr>shell := True\<rparr>) \<and> \<not> stdin_isatty pipe_env
   \<and> handlers_invoked (fst (main pipe_env (default_args\<lparr>shell := True\<rparr>))) = [DefaultHandler]
   \<and> snd (main pipe_env (default_args\<lparr>shell := True\<rparr>)) = Returned
   \<and> filter is_confirm (fst (main pipe_env (default_args\<lparr>shell := True\<rparr>))) = []
   \<and> filter is_run_command (fst (main pipe_env (default_args\<lparr>shell := True\<rparr>))) = []"
  using piped_shell_never_executes [of "default_args\<lparr>shell := True\<rparr>" pipe_env]
  by (simp add: example_defs stage_defs)

subsection \<open>The range of the two float options\<close>

lemma float_lt_nan [simp]: "\<not> float_lt x NaN"
  by (cases x) simp_all


lemma float_range_convert_nan: "float_range_convert lo hi NaN = Some NaN"
  by (simp add: float_range_convert_def)





end
